theory Spec2Isabelle
  imports Complex_Main "HOL-Library.Char_ord" "HOL-Library.List_Lexorder"
begin

section \<open>JavaScript numbers\<close>

text \<open>
  A JavaScript number is an IEEE double. The model keeps the three non-finite values
  apart and represents every finite value by the rational it denotes; arithmetic on
  finite values is exact. Rounding to 53 bits, overflow to \<open>Infinity\<close>, underflow and the
  negative zero are not modelled, so the model agrees with the code wherever the
  intermediate values are exactly representable and stay in range.
\<close>

datatype jsnum = Num rat | PosInf | NegInf | NaN

fun js_neg :: "jsnum \<Rightarrow> jsnum" where
  "js_neg (Num a) = Num (- a)"
| "js_neg PosInf = NegInf"
| "js_neg NegInf = PosInf"
| "js_neg NaN = NaN"

text \<open>\<open>a + b\<close>\<close>

fun js_add :: "jsnum \<Rightarrow> jsnum \<Rightarrow> jsnum" where
  "js_add (Num a) (Num b) = Num (a + b)"
| "js_add NaN _ = NaN"
| "js_add _ NaN = NaN"
| "js_add PosInf NegInf = NaN"
| "js_add NegInf PosInf = NaN"
| "js_add PosInf _ = PosInf"
| "js_add NegInf _ = NegInf"
| "js_add _ PosInf = PosInf"
| "js_add _ NegInf = NegInf"

text \<open>\<open>a * b\<close>: an infinity times zero is \<open>NaN\<close>, otherwise the signs multiply.\<close>

fun inf_times :: "jsnum \<Rightarrow> rat \<Rightarrow> jsnum" where
  "inf_times i a = (if a = 0 then NaN else if 0 < a then i else js_neg i)"

fun js_mul :: "jsnum \<Rightarrow> jsnum \<Rightarrow> jsnum" where
  "js_mul (Num a) (Num b) = Num (a * b)"
| "js_mul NaN _ = NaN"
| "js_mul _ NaN = NaN"
| "js_mul (Num a) i = inf_times i a"
| "js_mul i (Num b) = inf_times i b"
| "js_mul PosInf i = i"
| "js_mul NegInf i = js_neg i"

text \<open>
  \<open>a / b\<close>: a finite non-zero value divided by zero is an infinity, \<open>0 / 0\<close> and
  \<open>Infinity / Infinity\<close> are \<open>NaN\<close>, a finite value divided by an infinity is zero.
  The zero divisor is taken to be the positive zero.
\<close>

fun js_div :: "jsnum \<Rightarrow> jsnum \<Rightarrow> jsnum" where
  "js_div (Num a) (Num b) =
     (if b = 0 then (if a = 0 then NaN else if 0 < a then PosInf else NegInf)
      else Num (a / b))"
| "js_div NaN _ = NaN"
| "js_div _ NaN = NaN"
| "js_div (Num a) _ = Num 0"
| "js_div i (Num b) = (if 0 \<le> b then i else js_neg i)"
| "js_div _ _ = NaN"

text \<open>\<open>a <= b\<close> and \<open>a < b\<close>: every comparison with \<open>NaN\<close> is false.\<close>

fun js_le :: "jsnum \<Rightarrow> jsnum \<Rightarrow> bool" where
  "js_le (Num a) (Num b) = (a \<le> b)"
| "js_le NaN _ = False"
| "js_le _ NaN = False"
| "js_le NegInf _ = True"
| "js_le _ PosInf = True"
| "js_le _ _ = False"

fun js_lt :: "jsnum \<Rightarrow> jsnum \<Rightarrow> bool" where
  "js_lt (Num a) (Num b) = (a < b)"
| "js_lt NaN _ = False"
| "js_lt _ NaN = False"
| "js_lt PosInf _ = False"
| "js_lt _ NegInf = False"
| "js_lt _ _ = True"

text \<open>\<open>a > b\<close>\<close>

definition js_gt :: "jsnum \<Rightarrow> jsnum \<Rightarrow> bool" where
  "js_gt a b = js_lt b a"

text \<open>\<open>Number.isFinite\<close>\<close>

fun Number_isFinite :: "jsnum \<Rightarrow> bool" where
  "Number_isFinite (Num a) = True"
| "Number_isFinite _ = False"

text \<open>\<open>Math.floor\<close>, and \<open>Math.round\<close>, which rounds a half towards plus infinity.\<close>

fun Math_floor :: "jsnum \<Rightarrow> jsnum" where
  "Math_floor (Num a) = Num (of_int \<lfloor>a\<rfloor>)"
| "Math_floor x = x"

fun Math_round :: "jsnum \<Rightarrow> jsnum" where
  "Math_round (Num a) = Num (of_int \<lfloor>a + 1 / 2\<rfloor>)"
| "Math_round x = x"

text \<open>\<open>Math.max\<close> of two arguments: \<open>NaN\<close> if either is.\<close>

fun Math_max :: "jsnum \<Rightarrow> jsnum \<Rightarrow> jsnum" where
  "Math_max NaN _ = NaN"
| "Math_max _ NaN = NaN"
| "Math_max a b = (if js_le a b then b else a)"

section \<open>Strings\<close>

text \<open>
  Strings are lists of 8-bit characters. The white space that \<open>trim\<close>, \<open>parseInt\<close> and
  \<open>parseFloat\<close> strip is the ASCII part of JavaScript's set: TAB, LF, VT, FF, CR and
  the space.
\<close>

definition is_ws :: "char \<Rightarrow> bool" where
  "is_ws c \<longleftrightarrow> (of_char c :: nat) \<in> {9, 10, 11, 12, 13, 32}"

definition is_digit :: "char \<Rightarrow> bool" where
  "is_digit c \<longleftrightarrow> 48 \<le> (of_char c :: nat) \<and> (of_char c :: nat) \<le> 57"

definition digit_val :: "char \<Rightarrow> nat" where
  "digit_val c = of_char c - 48"

definition digit_char :: "nat \<Rightarrow> char" where
  "digit_char n = char_of (48 + n)"

text \<open>The value of a string of decimal digits, most significant first.\<close>

definition digits_val :: "string \<Rightarrow> nat" where
  "digits_val ds = foldl (\<lambda>a c. 10 * a + digit_val c) 0 ds"

text \<open>\<open>String.prototype.trim\<close>\<close>

definition trim :: "string \<Rightarrow> string" where
  "trim s = rev (dropWhile is_ws (rev (dropWhile is_ws s)))"

text \<open>\<open>s.split(c)\<close> for a one-character separator: always at least one piece.\<close>

fun js_split :: "char \<Rightarrow> string \<Rightarrow> string list" where
  "js_split c [] = [[]]"
| "js_split c (x # xs) =
     (if x = c then [] # js_split c xs
      else (case js_split c xs of p # ps \<Rightarrow> (x # p) # ps | [] \<Rightarrow> [[x]]))"

text \<open>The decimal digits of a natural number, most significant first.\<close>

fun String_dec :: "nat \<Rightarrow> string" where
  "String_dec n =
     (if n < 10 then [digit_char n] else String_dec (n div 10) @ [digit_char (n mod 10)])"

declare String_dec.simps [simp del]

text \<open>
  \<open>String(n)\<close> for a non-negative integer \<open>n\<close> (ECMAScript \<open>Number::toString\<close>): the
  decimal digits below \<open>1e21\<close>, and exponent notation from \<open>1e21\<close> on: the first
  significant digit, a point and the other significant digits if there are any,
  then \<open>e+\<close> and the decimal exponent. The significant digits are taken to be the
  digits of \<open>n\<close> without the trailing zeros, which is what JavaScript prints whenever
  these are at most 15 digits; for a longer expansion it prints the up to 17 digits
  that identify the double.
\<close>

definition strip_zeros :: "string \<Rightarrow> string" where
  "strip_zeros ds = rev (dropWhile (\<lambda>c. c = CHR ''0'') (rev ds))"

definition String_nat :: "nat \<Rightarrow> string" where
  "String_nat n =
     (if n < 10 ^ 21 then String_dec n
      else (case strip_zeros (String_dec n) of
              [] \<Rightarrow> []
            | c # cs \<Rightarrow>
                c # (if cs = [] then [] else CHR ''.'' # cs) @ ''e+''
                  @ String_dec (length (String_dec n) - 1)))"

text \<open>\<open>s.padStart(n, c)\<close> for a one-character filler.\<close>

definition padStart :: "nat \<Rightarrow> char \<Rightarrow> string \<Rightarrow> string" where
  "padStart n c s = replicate (n - length s) c @ s"

text \<open>An optional sign in front of a numeral: whether it is a minus, and the rest.\<close>

fun sign_prefix :: "string \<Rightarrow> bool \<times> string" where
  "sign_prefix [] = (False, [])"
| "sign_prefix (c # r) =
     (if c = CHR ''-'' then (True, r) else if c = CHR ''+'' then (False, r) else (False, c # r))"

text \<open>
  \<open>parseInt(s, 10)\<close>: leading white space, an optional sign, then the longest run of
  decimal digits; \<open>NaN\<close> when there is no digit.
\<close>

definition parseInt :: "string \<Rightarrow> jsnum" where
  "parseInt s =
     (let (neg, u) = sign_prefix (dropWhile is_ws s);
          ds = takeWhile is_digit u
      in if ds = [] then NaN
         else Num (if neg then - of_nat (digits_val ds) else of_nat (digits_val ds)))"

text \<open>
  The exponent part of a decimal literal: \<open>e\<close> or \<open>E\<close>, an optional sign and at least
  one digit. Anything else is not an exponent and counts as \<open>0\<close>.
\<close>

definition exponent_part :: "string \<Rightarrow> int" where
  "exponent_part r =
     (case r of
        [] \<Rightarrow> 0
      | c # r1 \<Rightarrow>
          if c = CHR ''e'' \<or> c = CHR ''E'' then
            (let (neg, r2) = sign_prefix r1; ds = takeWhile is_digit r2
             in if ds = [] then 0
                else if neg then - int (digits_val ds) else int (digits_val ds))
          else 0)"

definition scale10 :: "rat \<Rightarrow> int \<Rightarrow> rat" where
  "scale10 a e = (if 0 \<le> e then a * 10 ^ nat e else a / 10 ^ nat (- e))"

text \<open>
  \<open>parseFloat(s)\<close>: leading white space, an optional sign, then either \<open>Infinity\<close> or
  the longest prefix that is a decimal literal (digits, an optional point and
  fraction digits, an optional exponent); \<open>NaN\<close> when there is no digit before the
  exponent.
\<close>

definition parseFloat :: "string \<Rightarrow> jsnum" where
  "parseFloat s =
     (let (neg, u) = sign_prefix (dropWhile is_ws s)
      in if take 8 u = ''Infinity'' then (if neg then NegInf else PosInf)
         else
           (let ip = takeWhile is_digit u;
                r1 = dropWhile is_digit u;
                (fp, r2) = (case r1 of
                              [] \<Rightarrow> ([], r1)
                            | c # r \<Rightarrow>
                                if c = CHR ''.'' then (takeWhile is_digit r, dropWhile is_digit r)
                                else ([], r1))
            in if ip = [] \<and> fp = [] then NaN
               else
                 (let v = scale10 (of_nat (digits_val ip) + of_nat (digits_val fp) / 10 ^ length fp)
                                  (exponent_part r2)
                  in Num (if neg then - v else v))))"

section \<open>TimeCodec\<close>

text \<open>
  \<open>formatTime(ms)\<close> (app.js, lines 14 to 21). \<open>total = Math.max(0, Math.floor(ms))\<close>;
  when it is finite it is a non-negative integer, and the four divisions and
  remainders of the source are integer division and remainder. For \<open>Infinity\<close> the
  source computes \<open>m = Infinity\<close> and \<open>sec = cs = NaN\<close>; for \<open>NaN\<close> all three are \<open>NaN\<close>.
  The maximum with \<open>0\<close> is never \<open>-Infinity\<close>, so that case is not reached. The model
  divides exactly; the quotients of the source are rounded once \<open>total\<close> exceeds
  \<open>2^53\<close>.
\<close>

definition formatTime :: "jsnum \<Rightarrow> string" where
  "formatTime ms =
     (case Math_max (Num 0) (Math_floor ms) of
        Num t \<Rightarrow>
          (let total = nat \<lfloor>t\<rfloor>;
               s = total div 1000;
               m = s div 60;
               sec = s mod 60;
               cs = (total mod 1000) div 10
           in padStart 2 CHR ''0'' (String_nat m) @ '':''
              @ padStart 2 CHR ''0'' (String_nat sec) @ ''.''
              @ padStart 2 CHR ''0'' (String_nat cs))
      | PosInf \<Rightarrow> ''Infinity:NaN.NaN''
      | NegInf \<Rightarrow> ''00:00.00''
      | NaN \<Rightarrow> ''NaN:NaN.NaN'')"

text \<open>
  \<open>parseTimeString(str)\<close> (app.js, lines 23 to 37); \<open>None\<close> is the source's \<open>null\<close>.
  A string with a colon splits into at least two pieces, of which the source reads
  the first two.
\<close>

definition parseTimeString :: "string \<Rightarrow> jsnum option" where
  "parseTimeString str =
     (let t = trim str
      in if t = [] then None
         else if CHR '':'' \<in> set t then
           (case js_split CHR '':'' t of
              mm # rest # _ \<Rightarrow>
                (let ss = parseFloat rest; m = parseInt mm
                 in if m = NaN \<or> ss = NaN then None
                    else Some (js_mul (js_add (js_mul m (Num 60)) ss) (Num 1000)))
            | _ \<Rightarrow> None)
         else
           (let s = parseFloat t
            in if s = NaN then None else Some (js_mul s (Num 1000))))"

section \<open>SpeedModel\<close>

text \<open>\<open>speedKmh(distanceM, timeMs)\<close> (app.js, lines 39 to 43).\<close>

definition speedKmh :: "jsnum \<Rightarrow> jsnum \<Rightarrow> jsnum" where
  "speedKmh distanceM timeMs =
     (let t = js_div timeMs (Num 1000)
      in if js_le t (Num 0) then Num 0
         else js_div (js_mul distanceM (Num (36 / 10))) t)"

text \<open>\<open>round(n, d)\<close> (app.js, lines 45 to 48): \<open>Math.round(n * 10^d) / 10^d\<close>.\<close>

definition round_to :: "jsnum \<Rightarrow> nat \<Rightarrow> jsnum" where
  "round_to n d = (let p = Num (10 ^ d) in js_div (Math_round (js_mul n p)) p)"

section \<open>Sorting\<close>

text \<open>
  \<open>Array.prototype.sort(cmp)\<close> is stable, and for a comparator that is consistent every
  stable sort returns the same array. It is modelled by insertion sort: an element
  moves behind the elements that the comparator puts strictly before it
  (\<open>cmp(x, y) > 0\<close>); a comparator result of \<open>NaN\<close> counts as \<open>0\<close>.
\<close>

fun insert_by :: "('a \<Rightarrow> 'a \<Rightarrow> jsnum) \<Rightarrow> 'a \<Rightarrow> 'a list \<Rightarrow> 'a list" where
  "insert_by cmp x [] = [x]"
| "insert_by cmp x (y # ys) =
     (if js_gt (cmp x y) (Num 0) then y # insert_by cmp x ys else x # y # ys)"

definition js_sort :: "('a \<Rightarrow> 'a \<Rightarrow> jsnum) \<Rightarrow> 'a list \<Rightarrow> 'a list" where
  "js_sort cmp xs = foldr (insert_by cmp) xs []"

text \<open>
  \<open>a.localeCompare(b)\<close> on the \<open>createdAt\<close> strings. These come from
  \<open>Date.prototype.toISOString\<close>, digits and punctuation in a fixed layout, on which the
  locale's collation is the lexicographic order of the characters.
\<close>

definition localeCompare :: "string \<Rightarrow> string \<Rightarrow> jsnum" where
  "localeCompare a b = (if a < b then Num (- 1) else if a = b then Num 0 else Num 1)"

section \<open>Store\<close>

record dog =
  dog_id :: string
  dog_name :: string
  dog_breed :: string
  dog_notes :: string
  dog_photoDataUrl :: "string option"
  dog_createdAt :: string

record run =
  run_id :: string
  run_dogId :: string
  run_distanceM :: jsnum
  run_timeMs :: jsnum
  run_speedKmh :: jsnum
  run_sport :: string
  run_notes :: string
  run_createdAt :: string

text \<open>\<open>activeDogId\<close> is \<open>None\<close> when the property is absent or \<open>undefined\<close>.\<close>

record settings =
  defaultDistanceM :: jsnum
  defaultSport :: string
  units :: string
  activeDogId :: "string option"

record store =
  version :: jsnum
  activeTab :: string
  distances :: "jsnum list"
  dogs :: "dog list"
  runs :: "run list"
  settings :: settings

text \<open>\<open>defaultStore()\<close> (app.js, lines 55 to 68).\<close>

definition defaultStore :: store where
  "defaultStore =
     \<lparr>version = Num 2, activeTab = ''dogs'', distances = [Num 100, Num 200, Num 50],
      dogs = [], runs = [],
      settings = \<lparr>defaultDistanceM = Num 100, defaultSport = ''Sprint'', units = ''kmh'',
                  activeDogId = None\<rparr>\<rparr>"

text \<open>
  The application state: the global variable \<open>store\<close>, and the item that
  \<open>saveStore\<close> last wrote to \<open>localStorage\<close> (\<open>None\<close> before the first write).
\<close>

record 's app =
  app_store :: 's
  app_saved :: "'s option"

text \<open>\<open>saveStore(store)\<close> (app.js, lines 79 to 81).\<close>

definition saveStore :: "'s app \<Rightarrow> 's app" where
  "saveStore a = a\<lparr>app_saved := Some (app_store a)\<rparr>"

text \<open>The messages that the handlers show with \<open>toast\<close>.\<close>

datatype toast =
    Add_a_dog_first | Stop_the_timer_first | Record_a_time_first | Saved_New_PB | Saved_run
  | Enter_a_valid_time | Enter_at_least_one_distance | Select_a_file | Invalid_backup_file
  | Imported

section \<open>Ranking\<close>

text \<open>\<open>runsForDog(dogId)\<close> (app.js, lines 138 to 140).\<close>

definition runsForDog :: "store \<Rightarrow> string \<Rightarrow> run list" where
  "runsForDog st dogId =
     js_sort (\<lambda>a b. localeCompare (run_createdAt a) (run_createdAt b))
       (filter (\<lambda>r. run_dogId r = dogId) (runs st))"

text \<open>
  \<open>bestRunForDog(dogId)\<close> (app.js, lines 142 to 146). \<open>better_run\<close> is the reducer
  \<open>(best, r) => (!best || r.speedKmh > best.speedKmh ? r : best)\<close>, and the reduction
  starts from \<open>null\<close>.
\<close>

definition better_run :: "run option \<Rightarrow> run \<Rightarrow> run option" where
  "better_run best r =
     (case best of
        None \<Rightarrow> Some r
      | Some b \<Rightarrow> if js_gt (run_speedKmh r) (run_speedKmh b) then Some r else Some b)"

definition bestRunForDog :: "store \<Rightarrow> string \<Rightarrow> run option" where
  "bestRunForDog st dogId =
     (let rr = runsForDog st dogId
      in if rr = [] then None else foldl better_run None rr)"

text \<open>
  \<open>leaderboard()\<close> (app.js, lines 148 to 157): a row for every dog, the rows without a
  personal best filtered out, the rest sorted by \<open>b.pb.speedKmh - a.pb.speedKmh\<close>.
\<close>

definition leaderboard :: "store \<Rightarrow> (dog \<times> run) list" where
  "leaderboard st =
     js_sort (\<lambda>a b. js_add (run_speedKmh (snd b)) (js_neg (run_speedKmh (snd a))))
       (concat (map (\<lambda>d. case bestRunForDog st (dog_id d) of
                            None \<Rightarrow> []
                          | Some pb \<Rightarrow> [(d, pb)])
                    (dogs st)))"

section \<open>Store mutators\<close>

text \<open>
  The \<open>deleteDog\<close> action of the dog list (app.js, lines 503 to 528). \<open>dogId\<close> is the
  \<open>data-dogid\<close> of the clicked item and \<open>confirmed\<close> the answer to \<open>confirm\<close>. The
  handler returns at once when no dog has that identifier. \<open>store.dogs[0]?.id ||
  undefined\<close> is \<open>undefined\<close> when no dog is left or the first one has the empty
  identifier.
\<close>

definition deleteDog :: "string \<Rightarrow> bool \<Rightarrow> store app \<Rightarrow> store app" where
  "deleteDog dogId confirmed a =
     (let st = app_store a
      in case find (\<lambda>d. dog_id d = dogId) (dogs st) of
           None \<Rightarrow> a
         | Some dog \<Rightarrow>
             if \<not> confirmed then a
             else
               (let dogs' = filter (\<lambda>d. dog_id d \<noteq> dogId) (dogs st);
                    runs' = filter (\<lambda>r. run_dogId r \<noteq> dogId) (runs st);
                    active' =
                      (if activeDogId (settings st) = Some dogId then
                         (case dogs' of
                            [] \<Rightarrow> None
                          | d # _ \<Rightarrow> if dog_id d = [] then None else Some (dog_id d))
                       else activeDogId (settings st))
                in saveStore
                     (a\<lparr>app_store :=
                          st\<lparr>dogs := dogs', runs := runs',
                             settings := (settings st)\<lparr>activeDogId := active'\<rparr>\<rparr>\<rparr>)))"

text \<open>
  \<open>Array.from(new Set(xs))\<close>: a set keeps its elements in insertion order, and inserting
  an element that is already there changes nothing.
\<close>

definition Set_from :: "'a list \<Rightarrow> 'a list" where
  "Set_from xs = foldl (\<lambda>acc x. if x \<in> set acc then acc else acc @ [x]) [] xs"

text \<open>
  The specification of deduplication in the order of first occurrence, stated without
  reference to the source: the head, then the first occurrences among the later
  elements that differ from it.
\<close>

fun first_occurrences :: "'a list \<Rightarrow> 'a list" where
  "first_occurrences [] = []"
| "first_occurrences (x # xs) = x # first_occurrences (filter (\<lambda>y. y \<noteq> x) xs)"

text \<open>
  The submit handler of the distance form (app.js, lines 922 to 934); \<open>input\<close> is the
  text of the field. \<open>distance_entries\<close> is the array \<open>raw\<close> of the handler: the pieces
  between commas, trimmed and read by \<open>parseInt\<close>, of which the finite positive ones
  stay. The result carries the message when the submission is refused.
\<close>

definition distance_entries :: "string \<Rightarrow> jsnum list" where
  "distance_entries input =
     filter (\<lambda>n. Number_isFinite n \<and> js_gt n (Num 0))
       (map (\<lambda>x. parseInt (trim x)) (js_split CHR '','' input))"

definition setDistances :: "string \<Rightarrow> store app \<Rightarrow> store app \<times> toast option" where
  "setDistances input a =
     (let raw = distance_entries input;
          uniq = take 12 (Set_from raw)
      in case uniq of
           [] \<Rightarrow> (a, Some Enter_at_least_one_distance)
         | d0 # _ \<Rightarrow>
             (let st = (app_store a)\<lparr>distances := uniq\<rparr>;
                  st' = (if defaultDistanceM (settings st) \<in> set (distances st) then st
                         else st\<lparr>settings := (settings st)\<lparr>defaultDistanceM := d0\<rparr>\<rparr>)
              in (saveStore (a\<lparr>app_store := st'\<rparr>), None)))"

section \<open>TimerEngine\<close>

text \<open>The global \<open>timer\<close> (app.js, line 603); \<open>raf\<close> is the animation-frame handle.\<close>

record timer =
  running :: bool
  start :: jsnum
  elapsed :: jsnum
  raf :: nat

text \<open>\<open>resetTimer()\<close> (app.js, lines 742 to 749).\<close>

definition resetTimer :: "timer \<Rightarrow> timer" where
  "resetTimer t = t\<lparr>running := False, elapsed := Num 0\<rparr>"

text \<open>
  The submit handler of the manual-entry form (app.js, lines 647 to 658); \<open>input\<close> is
  the text of the field. The handler does not read \<open>timer.running\<close>.
\<close>

definition setManual :: "string \<Rightarrow> timer \<Rightarrow> timer \<times> toast option" where
  "setManual input t =
     (case parseTimeString input of
        None \<Rightarrow> (t, Some Enter_a_valid_time)
      | Some ms \<Rightarrow>
          if js_le ms (Num 0) then (t, Some Enter_a_valid_time)
          else (t\<lparr>elapsed := ms, running := False\<rparr>, None))"

text \<open>
  The click handler of the save button (app.js, lines 661 to 692). The form fields are
  read from the page; \<open>uid\<close> and \<open>now\<close> are the values that \<open>uid()\<close> and \<open>nowISO()\<close>
  return.
\<close>

record record_form =
  recordDog :: string
  recordDistance :: string
  recordSport :: string
  recordNotes :: string

definition saveRun ::
  "record_form \<Rightarrow> string \<Rightarrow> string \<Rightarrow> store app \<times> timer \<Rightarrow> (store app \<times> timer) \<times> toast" where
  "saveRun form uid now s =
     (let a = fst s; t = snd s; st = app_store a
      in if dogs st = [] then (s, Add_a_dog_first)
         else
           (let dogId = recordDog form;
                distanceM = parseInt (recordDistance form);
                sport = recordSport form;
                notes = trim (recordNotes form)
            in if running t then (s, Stop_the_timer_first)
               else if js_le (elapsed t) (Num 0) then (s, Record_a_time_first)
               else
                 (let run = \<lparr>run_id = uid, run_dogId = dogId, run_distanceM = distanceM,
                             run_timeMs = Math_round (elapsed t),
                             run_speedKmh = round_to (speedKmh distanceM (elapsed t)) 4,
                             run_sport = sport, run_notes = notes, run_createdAt = now\<rparr>;
                      st' = st\<lparr>runs := runs st @ [run]\<rparr>;
                      a' = saveStore (a\<lparr>app_store := st'\<rparr>);
                      isPB = (case bestRunForDog st' dogId of
                                None \<Rightarrow> False
                              | Some pb \<Rightarrow> run_id pb = run_id run)
                  in ((a', resetTimer t), if isPB then Saved_New_PB else Saved_run))))"

section \<open>Load and import\<close>

text \<open>
  \<open>JSON.parse\<close> returns an untyped value, and load and import install it as the store
  without looking at its shape. Such values are modelled by \<open>json\<close>; an object keeps
  its members in the order of the text.
\<close>

datatype json =
    JNull | JBool bool | JNum rat | JStr string | JArr "json list"
  | JObj "(string \<times> json) list"

text \<open>The truth value that \<open>!x\<close> negates; \<open>None\<close> is \<open>undefined\<close>.\<close>

fun truthy :: "json \<Rightarrow> bool" where
  "truthy JNull = False"
| "truthy (JBool b) = b"
| "truthy (JNum r) = (r \<noteq> 0)"
| "truthy (JStr s) = (s \<noteq> [])"
| "truthy (JArr xs) = True"
| "truthy (JObj kvs) = True"

fun truthy_opt :: "json option \<Rightarrow> bool" where
  "truthy_opt None = False"
| "truthy_opt (Some v) = truthy v"

text \<open>
  \<open>x.k\<close> for a value other than \<open>null\<close> and a name \<open>k\<close> that is not built in (such as
  \<open>length\<close>): the member of an object, the last one when the text repeats the name, and
  \<open>undefined\<close> for every other value.
\<close>

fun js_get :: "json \<Rightarrow> string \<Rightarrow> json option" where
  "js_get (JObj kvs) k = map_of (rev kvs) k"
| "js_get _ k = None"

text \<open>
  \<open>safeJSONParse(x, fallback)\<close> (app.js, lines 50 to 52); \<open>parsed\<close> is what
  \<open>JSON.parse(x)\<close> returns, \<open>None\<close> when it throws.
\<close>

definition safeJSONParse :: "json option \<Rightarrow> json \<Rightarrow> json" where
  "safeJSONParse parsed fallback = (case parsed of None \<Rightarrow> fallback | Some v \<Rightarrow> v)"

text \<open>The value of \<open>defaultStore()\<close> as a document.\<close>

definition defaultStore_doc :: json where
  "defaultStore_doc =
     JObj [(''version'', JNum 2), (''activeTab'', JStr ''dogs''),
           (''distances'', JArr [JNum 100, JNum 200, JNum 50]),
           (''dogs'', JArr []), (''runs'', JArr []),
           (''settings'', JObj [(''defaultDistanceM'', JNum 100),
                                (''defaultSport'', JStr ''Sprint''), (''units'', JStr ''kmh'')])]"

datatype error = TypeError

text \<open>
  \<open>loadStore()\<close> (app.js, lines 70 to 77). \<open>raw\<close> is \<open>None\<close> when the item is missing or
  empty (\<open>!raw\<close>), and otherwise what \<open>JSON.parse\<close> makes of it. Reading \<open>s.version\<close>
  of a parsed \<open>null\<close> throws.
\<close>

definition loadStore :: "json option option \<Rightarrow> error + json" where
  "loadStore raw =
     (case raw of
        None \<Rightarrow> Inr defaultStore_doc
      | Some parsed \<Rightarrow>
          (let s = safeJSONParse parsed defaultStore_doc
           in if s = JNull then Inl TypeError
              else if \<not> truthy_opt (js_get s ''version'') then Inr defaultStore_doc
              else Inr s))"

text \<open>
  The submit handler of the import form (app.js, lines 962 to 974). \<open>file\<close> is \<open>None\<close>
  when no file is selected, and otherwise what \<open>JSON.parse\<close> makes of its text.
\<close>

definition importSnapshot :: "json option option \<Rightarrow> json app \<Rightarrow> json app \<times> toast" where
  "importSnapshot file a =
     (case file of
        None \<Rightarrow> (a, Select_a_file)
      | Some parsed \<Rightarrow>
          (let data = safeJSONParse parsed JNull
           in if \<not> truthy data \<or> \<not> truthy_opt (js_get data ''version'')
              then (a, Invalid_backup_file)
              else (saveStore (a\<lparr>app_store := data\<rparr>), Imported)))"

text \<open>
  The runs of a document whose \<open>dogId\<close> is the \<open>id\<close> of none of its dogs: the runs that
  break the referential invariant.
\<close>

definition doc_list :: "json \<Rightarrow> string \<Rightarrow> json list" where
  "doc_list s k = (case js_get s k of Some (JArr xs) \<Rightarrow> xs | _ \<Rightarrow> [])"

definition orphan_runs :: "json \<Rightarrow> json list" where
  "orphan_runs s =
     filter (\<lambda>r. js_get r ''dogId'' \<notin> set (map (\<lambda>d. js_get d ''id'') (doc_list s ''dogs'')))
       (doc_list s ''runs'')"

section \<open>Example data\<close>

text \<open>
  A backup with one dog \<open>a\<close> and two runs, the second of a dog that is not in it.
\<close>

definition orphan_doc :: json where
  "orphan_doc =
     JObj [(''version'', JNum 2), (''dogs'', JArr [JObj [(''id'', JStr ''a'')]]),
           (''runs'', JArr [JObj [(''id'', JStr ''r1''), (''dogId'', JStr ''a'')],
                            JObj [(''id'', JStr ''r2''), (''dogId'', JStr ''gone'')]])]"

text \<open>Example data: two dogs with a run each, the first dog active.\<close>

definition dog_a :: dog where
  "dog_a = \<lparr>dog_id = ''a'', dog_name = ''Ace'', dog_breed = [], dog_notes = [],
            dog_photoDataUrl = None, dog_createdAt = ''2024-05-01T10:00:00.000Z''\<rparr>"

definition dog_b :: dog where
  "dog_b = \<lparr>dog_id = ''b'', dog_name = ''Bolt'', dog_breed = [], dog_notes = [],
            dog_photoDataUrl = None, dog_createdAt = ''2024-05-02T10:00:00.000Z''\<rparr>"

definition run_of :: "string \<Rightarrow> string \<Rightarrow> rat \<Rightarrow> string \<Rightarrow> run" where
  "run_of i d v c =
     \<lparr>run_id = i, run_dogId = d, run_distanceM = Num 100, run_timeMs = Num (360000 / v),
      run_speedKmh = Num v, run_sport = ''Sprint'', run_notes = [], run_createdAt = c\<rparr>"

definition two_dogs :: "store app" where
  "two_dogs =
     \<lparr>app_store = defaultStore
        \<lparr>dogs := [dog_a, dog_b],
         runs := [run_of ''r1'' ''a'' 30 ''2024-05-03T10:00:00.000Z'',
                  run_of ''r2'' ''b'' 20 ''2024-05-03T10:05:00.000Z''],
         settings := (settings defaultStore)\<lparr>activeDogId := Some ''a''\<rparr>\<rparr>,
      app_saved = None\<rparr>"

text \<open>
  Example data: the form with dog \<open>a\<close> and the distance \<open>100\<close>, and a stopped timer that
  shows a given number of milliseconds.
\<close>

definition form_100 :: record_form where
  "form_100 = \<lparr>recordDog = ''a'', recordDistance = ''100'', recordSport = ''Sprint'',
                 recordNotes = []\<rparr>"

definition stopped_at :: "rat \<Rightarrow> timer" where
  "stopped_at e = \<lparr>running = False, start = Num 0, elapsed = Num e, raf = 0\<rparr>"


section \<open>Digits and parsing\<close>

lemma digit_char_digit: "n < 10 \<Longrightarrow> is_digit (digit_char n)"
  by (simp add: is_digit_def digit_char_def)

lemma digit_val_digit_char: "n < 10 \<Longrightarrow> digit_val (digit_char n) = n"
  by (simp add: digit_val_def digit_char_def)

lemma digit_not_ws: "is_digit c \<Longrightarrow> \<not> is_ws c"
  by (auto simp add: is_digit_def is_ws_def)

lemma digit_not_special:
  "is_digit c \<Longrightarrow> c \<noteq> CHR ''-'' \<and> c \<noteq> CHR ''+'' \<and> c \<noteq> CHR '':'' \<and> c \<noteq> CHR ''.'' \<and> c \<noteq> CHR ''I''"
  by (auto simp add: is_digit_def)

lemma not_digit_point: "\<not> is_digit CHR ''.''"
  by (simp add: is_digit_def)

lemma String_dec_digits: "c \<in> set (String_dec n) \<Longrightarrow> is_digit c"
proof (induction n arbitrary: c rule: String_dec.induct)
  case (1 n)
  show ?case
  proof (cases "n < 10")
    case True
    with "1.prems" show ?thesis
      by (simp add: String_dec.simps [of n] digit_char_digit)
  next
    case False
    with "1.prems" "1.IH" show ?thesis
      by (auto simp add: String_dec.simps [of n] digit_char_digit)
  qed
qed

lemma String_dec_not_Nil: "String_dec n \<noteq> []"
  by (simp add: String_dec.simps [of n])

lemma digits_val_snoc: "digits_val (ds @ [c]) = 10 * digits_val ds + digit_val c"
  by (simp add: digits_val_def)

lemma digits_val_String_dec: "digits_val (String_dec n) = n"
proof (induction n rule: String_dec.induct)
  case (1 n)
  show ?case
  proof (cases "n < 10")
    case True
    then show ?thesis
      by (simp add: String_dec.simps [of n] digits_val_def digit_val_digit_char)
  next
    case False
    with "1.IH" show ?thesis
      by (simp add: String_dec.simps [of n] digits_val_snoc digit_val_digit_char)
  qed
qed

lemma length_String_dec_small:
  assumes "n < 100"
  shows "length (String_dec n) \<le> 2"
proof -
  from assms have "n div 10 < 10" by simp
  then show ?thesis
    by (simp add: String_dec.simps [of n] String_dec.simps [of "n div 10"])
qed

lemma foldl_zeros:
  "foldl (\<lambda>a c. 10 * a + digit_val c) 0 (replicate k CHR ''0'') = 0"
  by (induction k) (simp_all add: digit_val_def)

lemma digits_val_pad: "digits_val (padStart k CHR ''0'' ds) = digits_val ds"
  by (simp add: digits_val_def padStart_def foldl_zeros)

lemma padStart_digits:
  "(\<And>c. c \<in> set ds \<Longrightarrow> is_digit c) \<Longrightarrow> c \<in> set (padStart k CHR ''0'' ds) \<Longrightarrow> is_digit c"
  by (auto simp add: padStart_def is_digit_def)

lemma length_padStart: "length (padStart k c ds) = max k (length ds)"
  by (simp add: padStart_def)

lemma dropWhile_hd: "xs \<noteq> [] \<Longrightarrow> \<not> P (hd xs) \<Longrightarrow> dropWhile P xs = xs"
  by (cases xs) simp_all

lemma trim_id:
  assumes "s \<noteq> []" "\<not> is_ws (hd s)" "\<not> is_ws (last s)"
  shows "trim s = s"
proof -
  have "dropWhile is_ws s = s"
    using assms by (simp add: dropWhile_hd)
  moreover have "dropWhile is_ws (rev s) = rev s"
    using assms by (simp add: dropWhile_hd hd_rev)
  ultimately show ?thesis by (simp add: trim_def)
qed

lemma js_split_no_sep: "c \<notin> set xs \<Longrightarrow> js_split c xs = [xs]"
  by (induction xs) auto

lemma js_split_at: "c \<notin> set xs \<Longrightarrow> js_split c (xs @ c # ys) = xs # js_split c ys"
  by (induction xs) auto

lemma takeWhile_all: "(\<And>c. c \<in> set xs \<Longrightarrow> P c) \<Longrightarrow> \<not> P y \<Longrightarrow> takeWhile P (xs @ y # ys) = xs"
  by (induction xs) auto

lemma dropWhile_all: "(\<And>c. c \<in> set xs \<Longrightarrow> P c) \<Longrightarrow> \<not> P y \<Longrightarrow> dropWhile P (xs @ y # ys) = y # ys"
  by (induction xs) auto

lemma sign_prefix_digit: "ds \<noteq> [] \<Longrightarrow> is_digit (hd ds) \<Longrightarrow> sign_prefix ds = (False, ds)"
  by (cases ds) (auto dest: digit_not_special)

lemma parseInt_digits:
  assumes "ds \<noteq> []" and "\<And>c. c \<in> set ds \<Longrightarrow> is_digit c"
  shows "parseInt ds = Num (of_nat (digits_val ds))"
proof -
  have h: "is_digit (hd ds)" using assms by simp
  have d: "dropWhile is_ws ds = ds"
    using assms(1) h by (simp add: dropWhile_hd digit_not_ws)
  have sp: "sign_prefix ds = (False, ds)"
    using assms(1) h by (rule sign_prefix_digit)
  have tw: "takeWhile is_digit ds = ds"
    using assms(2) by (simp add: takeWhile_eq_all_conv)
  show ?thesis
    using assms(1) by (simp add: parseInt_def d sp tw)
qed

lemma parseFloat_fixed:
  assumes "ip \<noteq> []" and "\<And>c. c \<in> set ip \<Longrightarrow> is_digit c"
    and "\<And>c. c \<in> set fp \<Longrightarrow> is_digit c"
  shows "parseFloat (ip @ CHR ''.'' # fp)
         = Num (of_nat (digits_val ip) + of_nat (digits_val fp) / 10 ^ length fp)"
proof -
  let ?s = "ip @ CHR ''.'' # fp"
  have h: "is_digit (hd ip)" using assms by simp
  have ne: "?s \<noteq> []" by simp
  have hd: "hd ?s = hd ip" using assms(1) by simp
  have d: "dropWhile is_ws ?s = ?s"
    using h hd by (simp add: dropWhile_hd digit_not_ws del: hd_append2)
  have sp: "sign_prefix ?s = (False, ?s)"
    using ne h hd by (metis sign_prefix_digit)
  have ninf: "take 8 ?s \<noteq> ''Infinity''"
  proof
    assume "take 8 ?s = ''Infinity''"
    then have "hd (take 8 ?s) = CHR ''I''" by simp
    moreover have "hd (take 8 ?s) = hd ?s" by (rule hd_take) simp
    ultimately have "hd ?s = CHR ''I''" by simp
    with h hd show False by (auto dest: digit_not_special)
  qed
  have tw: "takeWhile is_digit ?s = ip"
    by (rule takeWhile_all) (simp_all add: assms(2) not_digit_point)
  have dw: "dropWhile is_digit ?s = CHR ''.'' # fp"
    by (rule dropWhile_all) (simp_all add: assms(2) not_digit_point)
  have tf: "takeWhile is_digit fp = fp"
    using assms(3) by (simp add: takeWhile_eq_all_conv)
  have df: "dropWhile is_digit fp = []"
    using assms(3) by simp
  show ?thesis
    unfolding parseFloat_def d sp
    using ninf assms(1)
    by (simp add: tw dw tf df exponent_part_def scale10_def Let_def del: take_append)
qed

lemma formatTime_Num:
  "formatTime (Num x) =
     padStart 2 CHR ''0'' (String_nat (nat \<lfloor>x\<rfloor> div 1000 div 60)) @ '':''
     @ padStart 2 CHR ''0'' (String_nat (nat \<lfloor>x\<rfloor> div 1000 mod 60)) @ ''.''
     @ padStart 2 CHR ''0'' (String_nat (nat \<lfloor>x\<rfloor> mod 1000 div 10))"
proof (cases "0 \<le> \<lfloor>x\<rfloor>")
  case True
  then have "Math_max (Num 0) (Math_floor (Num x)) = Num (of_int \<lfloor>x\<rfloor>)"
    by simp
  then show ?thesis
    by (simp add: formatTime_def Let_def)
next
  case False
  then have "Math_max (Num 0) (Math_floor (Num x)) = Num 0"
    by simp
  moreover from False have "nat \<lfloor>x\<rfloor> = 0" by simp
  ultimately show ?thesis
    by (simp add: formatTime_def Let_def)
qed

lemma pad2_digits: "c \<in> set (padStart 2 CHR ''0'' (String_dec n)) \<Longrightarrow> is_digit c"
  by (rule padStart_digits [of "String_dec n"]) (simp_all add: String_dec_digits)

lemma pad2_not_Nil: "padStart 2 CHR ''0'' (String_dec n) \<noteq> []"
  by (simp add: padStart_def String_dec_not_Nil)

lemma pad2_val: "digits_val (padStart 2 CHR ''0'' (String_dec n)) = n"
  by (simp add: digits_val_pad digits_val_String_dec)

lemma pad2_length: "n < 100 \<Longrightarrow> length (padStart 2 CHR ''0'' (String_dec n)) = 2"
  using length_String_dec_small [of n] by (simp add: length_padStart)

lemma centis_arith:
  "1000 * (60 * (t div 1000 div 60) + t div 1000 mod 60) + 10 * (t mod 1000 div 10)
   = t - t mod (10::nat)"
proof -
  have a: "60 * (t div 1000 div 60) + t div 1000 mod 60 = t div 1000"
    by simp
  have "t mod 1000 mod 10 = t mod 10"
    by (simp add: mod_mod_cancel)
  then have b: "10 * (t mod 1000 div 10) + t mod 10 = t mod 1000"
    by (metis mult_div_mod_eq)
  have c: "1000 * (t div 1000) + t mod 1000 = t"
    by simp
  show ?thesis
    unfolding a using b c by linarith
qed

lemma of_nat_centis:
  "(of_nat (1000 * (60 * m + sec) + 10 * cs) :: rat)
   = (of_nat m * 60 + (of_nat sec + of_nat cs / 100)) * 1000"
  by (simp add: algebra_simps)

lemma String_nat_small: "n < 10 ^ 21 \<Longrightarrow> String_nat n = String_dec n"
  by (simp add: String_nat_def)

lemma parse_format:
  assumes "nat \<lfloor>x\<rfloor> div 1000 div 60 < 10 ^ 21"
  shows "parseTimeString (formatTime (Num x))
   = Some (Num (of_nat (nat \<lfloor>x\<rfloor> - nat \<lfloor>x\<rfloor> mod 10)))"
proof -
  define t where "t = nat \<lfloor>x\<rfloor>"
  have small: "t div 1000 div 60 < 10 ^ 21" "t div 1000 mod 60 < 10 ^ 21"
    "t mod 1000 div 10 < 10 ^ 21"
  proof -
    show "t div 1000 div 60 < 10 ^ 21"
      using assms by (simp add: t_def)
    have "t div 1000 mod 60 < 60" by simp
    then show "t div 1000 mod 60 < 10 ^ 21" by simp
    have "t mod 1000 div 10 < 100" by simp
    then show "t mod 1000 div 10 < 10 ^ 21" by simp
  qed
  define M where "M = padStart 2 CHR ''0'' (String_dec (t div 1000 div 60))"
  define S where "S = padStart 2 CHR ''0'' (String_dec (t div 1000 mod 60))"
  define C where "C = padStart 2 CHR ''0'' (String_dec (t mod 1000 div 10))"
  define R where "R = S @ CHR ''.'' # C"
  have fmt: "formatTime (Num x) = M @ CHR '':'' # R"
    using small
    by (simp add: formatTime_Num String_nat_small M_def S_def C_def R_def flip: t_def)
  have dM: "\<And>c. c \<in> set M \<Longrightarrow> is_digit c"
    unfolding M_def by (rule pad2_digits)
  have dS: "\<And>c. c \<in> set S \<Longrightarrow> is_digit c"
    unfolding S_def by (rule pad2_digits)
  have dC: "\<And>c. c \<in> set C \<Longrightarrow> is_digit c"
    unfolding C_def by (rule pad2_digits)
  have nM: "M \<noteq> []" and nS: "S \<noteq> []" and nC: "C \<noteq> []"
    by (simp_all add: M_def S_def C_def pad2_not_Nil)
  have lC: "length C = 2"
    unfolding C_def by (rule pad2_length) simp
  have colon_M: "CHR '':'' \<notin> set M"
    using dM digit_not_special by blast
  have colon_R: "CHR '':'' \<notin> set R"
    using dS dC digit_not_special by (auto simp add: R_def)
  have "is_digit (hd M)" "is_digit (last C)"
    using dM dC nM nC by simp_all
  then have tr: "trim (M @ CHR '':'' # R) = M @ CHR '':'' # R"
    using nM nC by (intro trim_id) (simp_all add: R_def digit_not_ws)
  have sp: "js_split CHR '':'' (M @ CHR '':'' # R) = [M, R]"
    using colon_M colon_R by (simp add: js_split_at js_split_no_sep)
  have pm: "parseInt M = Num (of_nat (t div 1000 div 60))"
    using parseInt_digits [OF nM dM] by (simp add: M_def pad2_val)
  have pr: "parseFloat R
            = Num (of_nat (t div 1000 mod 60) + of_nat (t mod 1000 div 10) / 100)"
    unfolding R_def using parseFloat_fixed [OF nS dS dC] lC
    by (simp add: S_def C_def pad2_val)
  have "parseTimeString (M @ CHR '':'' # R)
        = Some (Num ((of_nat (t div 1000 div 60) * 60
                      + (of_nat (t div 1000 mod 60) + of_nat (t mod 1000 div 10) / 100)) * 1000))"
    by (simp add: parseTimeString_def tr sp pm pr)
  also have "(of_nat (t div 1000 div 60) * 60
               + (of_nat (t div 1000 mod 60) + of_nat (t mod 1000 div 10) / 100)) * 1000
             = (of_nat (1000 * (60 * (t div 1000 div 60) + t div 1000 mod 60)
                        + 10 * (t mod 1000 div 10)) :: rat)"
    by (rule sym) (rule of_nat_centis)
  finally show ?thesis
    by (simp only: fmt centis_arith t_def)
qed

lemma roundtrip_bounds:
  assumes "0 \<le> (x::rat)"
  shows "0 \<le> x - of_nat (nat \<lfloor>x\<rfloor> - nat \<lfloor>x\<rfloor> mod 10)"
    and "x - of_nat (nat \<lfloor>x\<rfloor> - nat \<lfloor>x\<rfloor> mod 10) < 10"
proof -
  define t where "t = nat \<lfloor>x\<rfloor>"
  have fl: "of_nat t \<le> x" "x < of_nat t + 1"
    using assms by (simp_all add: t_def) linarith+
  have "t mod 10 \<le> t" by simp
  then have eq: "(of_nat (t - t mod 10) :: rat) = of_nat t - of_nat (t mod 10)"
    by (simp add: of_nat_diff)
  have "t mod 10 \<le> 9" by simp
  then have m9: "(of_nat (t mod 10) :: rat) \<le> 9"
    by (metis of_nat_le_iff of_nat_numeral)
  have m0: "(0::rat) \<le> of_nat (t mod 10)" by simp
  show "0 \<le> x - of_nat (nat \<lfloor>x\<rfloor> - nat \<lfloor>x\<rfloor> mod 10)"
    using fl m0 unfolding t_def [symmetric] eq by linarith
  show "x - of_nat (nat \<lfloor>x\<rfloor> - nat \<lfloor>x\<rfloor> mod 10) < 10"
    using fl m9 unfolding t_def [symmetric] eq by linarith
qed

section \<open>TimeCodec and SpeedModel: the properties\<close>

lemma digit_char_simps:
  "digit_char 0 = CHR ''0''" "digit_char 1 = CHR ''1''" "digit_char (Suc 0) = CHR ''1''"
  "digit_char 2 = CHR ''2''" "digit_char 3 = CHR ''3''" "digit_char 4 = CHR ''4''"
  "digit_char 5 = CHR ''5''" "digit_char 6 = CHR ''6''" "digit_char 7 = CHR ''7''"
  "digit_char 8 = CHR ''8''" "digit_char 9 = CHR ''9''"
  by code_simp+

lemma String_dec_large: "String_dec 1024000000000000000000 = ''1024000000000000000000''"
  by (simp add: String_dec.simps digit_char_simps)

lemma String_nat_large: "String_nat 1024000000000000000000 = ''1.024e+21''"
  by (simp add: String_nat_def String_dec_large strip_zeros_def String_dec.simps
      digit_char_simps)

lemma format_large: "formatTime (Num 61440000000000000000000000) = ''1.024e+21:00.00''"
  by (simp add: formatTime_Num String_nat_large padStart_def String_nat_small
      String_dec.simps digit_char_simps)

lemma parse_large: "parseTimeString ''1.024e+21:00.00'' = Some (Num 60000)"
  by code_simp

text \<open>
  C7, as stated, fails. From \<open>1e21\<close> minutes on, \<open>String\<close> prints the minutes in exponent
  notation, of which \<open>parseInt\<close> reads the digits before the point. The duration
  \<open>6.144e25\<close> ms, that is \<open>1.024e21\<close> minutes, is formatted as \<open>1.024e+21:00.00\<close> and
  read back as one minute. (Every intermediate value of this run is a double, so the
  code computes the same.)
\<close>

theorem parse_format_large_counterexample:
  "formatTime (Num 61440000000000000000000000) = ''1.024e+21:00.00''
   \<and> parseTimeString (formatTime (Num 61440000000000000000000000)) = Some (Num 60000)
   \<and> \<not> \<bar>61440000000000000000000000 - 60000\<bar> \<le> (10::rat)"
  by (simp add: format_large parse_large)

text \<open>
  C7, amended. For every non-negative duration \<open>x\<close> below \<open>2^53\<close> ms, the range in which
  doubles hold every whole millisecond, \<open>parseTimeString (formatTime x)\<close> is a number
  and differs from \<open>x\<close> by at most 10 milliseconds, one centisecond.
\<close>

theorem parse_format_roundtrip:
  assumes "0 \<le> x" and "x < 2 ^ 53"
  shows "\<exists>y. parseTimeString (formatTime (Num x)) = Some (Num y) \<and> \<bar>x - y\<bar> \<le> 10"
proof -
  let ?y = "of_nat (nat \<lfloor>x\<rfloor> - nat \<lfloor>x\<rfloor> mod 10) :: rat"
  from assms(2) have "\<lfloor>x\<rfloor> < 9007199254740992"
    by (simp add: floor_less_iff)
  then have "nat \<lfloor>x\<rfloor> < 9007199254740992"
    by linarith
  moreover have "nat \<lfloor>x\<rfloor> div 1000 div 60 \<le> nat \<lfloor>x\<rfloor>"
    by (meson div_le_dividend le_trans)
  ultimately have "nat \<lfloor>x\<rfloor> div 1000 div 60 < 10 ^ 21"
    by simp
  then have "parseTimeString (formatTime (Num x)) = Some (Num ?y)"
    by (rule parse_format)
  moreover have "0 \<le> x - ?y" and "x - ?y < 10"
    using assms(1) by (rule roundtrip_bounds)+
  ultimately show ?thesis
    by (intro exI [of _ ?y]) simp
qed

lemma format_65505: "formatTime (Num 65505) = ''01:05.50''"
  by (simp add: formatTime_Num padStart_def String_nat_small String_dec.simps
      digit_char_simps)

theorem parse_format_roundtrip_witness:
  "(0::rat) \<le> 65505 \<and> (65505::rat) < 2 ^ 53 \<and> formatTime (Num 65505) = ''01:05.50''
   \<and> parseTimeString ''01:05.50'' = Some (Num 65500) \<and> \<bar>65505 - 65500\<bar> \<le> (10::rat)"
proof -
  have p: "parseTimeString ''01:05.50'' = Some (Num 65500)"
    by code_simp
  show ?thesis
    using parse_format_roundtrip [of 65505] p by (simp add: format_65505)
qed

text \<open>
  C8, as stated, fails: a distance that is \<open>NaN\<close> comes back as \<open>NaN\<close>. The save handler
  passes \<open>parseInt\<close> of the selected distance, which is \<open>NaN\<close> when the store has no
  distances.
\<close>

theorem speedKmh_NaN_counterexample:
  "speedKmh NaN (Num 1000) = NaN \<and> parseInt [] = NaN"
  by (simp add: speedKmh_def parseInt_def)

text \<open>
  C8, amended. Whatever the distance, \<open>speedKmh\<close> returns \<open>0\<close> whenever the duration is
  at most \<open>0\<close>. In every other case in which \<open>durationMs / 1000\<close> is not at most \<open>0\<close>
  it returns \<open>distance * 3.6 / (durationMs / 1000)\<close>, and the divisor is then not zero.
  For a finite distance and a finite duration the result is never \<open>NaN\<close>.
  \<open>speedKmh 100 10000 = 36\<close> and \<open>speedKmh 100 0 = 0\<close>.
\<close>

theorem speedKmh_formula:
  "(js_le timeMs (Num 0) \<longrightarrow> speedKmh distanceM timeMs = Num 0)
   \<and> (\<not> js_le (js_div timeMs (Num 1000)) (Num 0) \<longrightarrow>
        speedKmh distanceM timeMs
          = js_div (js_mul distanceM (Num (36 / 10))) (js_div timeMs (Num 1000))
        \<and> js_div timeMs (Num 1000) \<noteq> Num 0)
   \<and> speedKmh (Num d) (Num t) \<noteq> NaN
   \<and> speedKmh (Num 100) (Num 10000) = Num 36
   \<and> speedKmh (Num 100) (Num 0) = Num 0"
proof -
  have a: "speedKmh distanceM timeMs = Num 0" if "js_le timeMs (Num 0)"
    using that by (cases timeMs) (simp_all add: speedKmh_def)
  have b: "speedKmh distanceM timeMs
             = js_div (js_mul distanceM (Num (36 / 10))) (js_div timeMs (Num 1000))
           \<and> js_div timeMs (Num 1000) \<noteq> Num 0"
    if "\<not> js_le (js_div timeMs (Num 1000)) (Num 0)"
    using that by (auto simp add: speedKmh_def)
  have c: "speedKmh (Num d) (Num t) \<noteq> NaN"
    by (simp add: speedKmh_def)
  have "speedKmh (Num 100) (Num 10000) = Num 36" "speedKmh (Num 100) (Num 0) = Num 0"
    by (simp_all add: speedKmh_def)
  with a b c show ?thesis by blast
qed

theorem speedKmh_formula_witness:
  "js_le NegInf (Num 0) \<and> speedKmh NaN NegInf = Num 0
   \<and> \<not> js_le (js_div (Num 7200) (Num 1000)) (Num 0)
   \<and> speedKmh (Num 50) (Num 7200)
       = js_div (js_mul (Num 50) (Num (36 / 10))) (js_div (Num 7200) (Num 1000))"
  using speedKmh_formula [where timeMs = NegInf and distanceM = NaN]
    speedKmh_formula [where timeMs = "Num 7200" and distanceM = "Num 50"]
  by simp

lemma parseFloat_Nil: "parseFloat [] = NaN"
  by (simp add: parseFloat_def)

lemma parse_minus_5: "parseTimeString ''-5'' = Some (Num (- 5000))"
  by code_simp

text \<open>
  C10. \<open>parseTimeString\<close> accepts strings that denote negative numbers and returns a
  negative number of milliseconds, not \<open>null\<close>: \<open>parseTimeString "-5"\<close> is \<open>-5000\<close>, and
  every string without a colon whose \<open>parseFloat\<close> is a negative number \<open>r\<close> gives
  \<open>r * 1000\<close>. The rejection is the caller's: the manual-entry handler refuses \<open>"-5"\<close>
  and leaves the timer as it was.
\<close>

theorem parse_negative:
  "parseTimeString ''-5'' = Some (Num (- 5000))
   \<and> (CHR '':'' \<notin> set (trim s) \<longrightarrow> parseFloat (trim s) = Num r \<longrightarrow> r < 0 \<longrightarrow>
        parseTimeString s = Some (Num (r * 1000)) \<and> r * 1000 < 0)
   \<and> setManual ''-5'' t = (t, Some Enter_a_valid_time)"
proof -
  have g: "parseTimeString s = Some (Num (r * 1000)) \<and> r * 1000 < 0"
    if "CHR '':'' \<notin> set (trim s)" "parseFloat (trim s) = Num r" "r < 0"
  proof -
    from that(2) have "trim s \<noteq> []"
      by (auto simp add: parseFloat_Nil)
    with that show ?thesis
      by (simp add: parseTimeString_def mult_neg_pos)
  qed
  have "setManual ''-5'' t = (t, Some Enter_a_valid_time)"
    by (simp add: setManual_def parse_minus_5)
  with g parse_minus_5 show ?thesis by blast
qed

lemma trim_minus_1_5: "trim '' -1.5 '' = ''-1.5''"
  by code_simp

lemma parseFloat_minus_1_5: "parseFloat ''-1.5'' = Num (- (3 / 2))"
  by code_simp

theorem parse_negative_witness:
  "CHR '':'' \<notin> set (trim '' -1.5 '') \<and> parseFloat (trim '' -1.5 '') = Num (- (3 / 2))
   \<and> - (3 / 2) < (0::rat) \<and> parseTimeString '' -1.5 '' = Some (Num (- 1500))"
  using parse_negative [where s = "'' -1.5 ''" and r = "- (3 / 2)"]
  by (simp add: trim_minus_1_5 parseFloat_minus_1_5)

section \<open>TimerEngine: manual entry\<close>

text \<open>
  C4, as stated, fails: the manual-entry handler never reads \<open>timer.running\<close>. On a
  running timer a valid entry is accepted, overwrites \<open>elapsed\<close> and stops the timer.
\<close>

theorem setManual_running_counterexample:
  "setManual ''10.52'' \<lparr>running = True, start = Num 0, elapsed = Num 1234, raf = 1\<rparr>
     = (\<lparr>running = False, start = Num 0, elapsed = Num 10520, raf = 1\<rparr>, None)
   \<and> \<lparr>running = False, start = Num 0, elapsed = Num 10520, raf = 1\<rparr>
     \<noteq> \<lparr>running = True, start = Num 0, elapsed = Num 1234, raf = 1\<rparr>"
proof -
  have "parseTimeString ''10.52'' = Some (Num 10520)"
    by code_simp
  then show ?thesis
    by (simp add: setManual_def)
qed

text \<open>
  C4, amended. In every timer state, running or not, an entry that parses to a duration
  above zero is accepted: it overwrites \<open>elapsed\<close> with that duration and leaves the
  timer stopped (\<open>running = False\<close>). An entry that does not parse, or parses to a
  duration that is not positive, is refused with the message "Enter a valid time" and
  the timer is unchanged.
\<close>

theorem setManual_any_state:
  "(parseTimeString input = Some ms \<longrightarrow> \<not> js_le ms (Num 0) \<longrightarrow>
      setManual input t = (t\<lparr>elapsed := ms, running := False\<rparr>, None)
      \<and> elapsed (fst (setManual input t)) = ms \<and> \<not> running (fst (setManual input t)))
   \<and> (parseTimeString input = None \<or> (\<exists>ms. parseTimeString input = Some ms \<and> js_le ms (Num 0)) \<longrightarrow>
      setManual input t = (t, Some Enter_a_valid_time))"
  by (auto simp add: setManual_def)

theorem setManual_any_state_witness:
  "parseTimeString ''00:10.52'' = Some (Num 10520) \<and> \<not> js_le (Num 10520) (Num 0)
   \<and> setManual ''00:10.52'' \<lparr>running = True, start = Num 7, elapsed = Num 99, raf = 3\<rparr>
       = (\<lparr>running = False, start = Num 7, elapsed = Num 10520, raf = 3\<rparr>, None)
   \<and> parseTimeString ''abc'' = None
   \<and> setManual ''abc'' \<lparr>running = True, start = Num 7, elapsed = Num 99, raf = 3\<rparr>
       = (\<lparr>running = True, start = Num 7, elapsed = Num 99, raf = 3\<rparr>, Some Enter_a_valid_time)"
proof -
  have p: "parseTimeString ''00:10.52'' = Some (Num 10520)"
    by code_simp
  have q: "parseTimeString ''abc'' = None"
    by code_simp
  show ?thesis
    using setManual_any_state [where input = "''00:10.52''" and ms = "Num 10520"
        and t = "\<lparr>running = True, start = Num 7, elapsed = Num 99, raf = 3\<rparr>"]
      setManual_any_state [where input = "''abc''"
        and t = "\<lparr>running = True, start = Num 7, elapsed = Num 99, raf = 3\<rparr>"]
      p q
    by simp
qed

section \<open>Load and import: the properties\<close>



text \<open>
  C3, as stated, fails: import and load keep a run whose dog is missing.
\<close>

theorem import_keeps_orphan_counterexample:
  "orphan_runs (app_store (fst (importSnapshot (Some (Some orphan_doc))
                                  \<lparr>app_store = defaultStore_doc, app_saved = None\<rparr>)))
     = [JObj [(''id'', JStr ''r2''), (''dogId'', JStr ''gone'')]]
   \<and> loadStore (Some (Some orphan_doc)) = Inr orphan_doc"
  by (simp add: importSnapshot_def loadStore_def safeJSONParse_def saveStore_def orphan_doc_def Let_def
      orphan_runs_def doc_list_def)

text \<open>
  C3, amended. For every persisted or imported payload with a truthy \<open>version\<close>, load
  and import take the payload as it is and drop no run: the resulting store is the
  payload, with the same runs, so every run of the resulting store references a dog
  of the store exactly when that already holds in the payload.
\<close>

theorem load_import_keep_runs:
  assumes "truthy_opt (js_get data ''version'')"
  shows "loadStore (Some (Some data)) = Inr data
         \<and> app_store (fst (importSnapshot (Some (Some data)) a)) = data
         \<and> doc_list (app_store (fst (importSnapshot (Some (Some data)) a))) ''runs''
             = doc_list data ''runs''
         \<and> (orphan_runs (app_store (fst (importSnapshot (Some (Some data)) a))) = []
              \<longleftrightarrow> orphan_runs data = [])"
proof -
  from assms have "truthy data" and "data \<noteq> JNull"
    by (cases data; simp)+
  with assms show ?thesis
    by (simp add: importSnapshot_def loadStore_def safeJSONParse_def saveStore_def)
qed

theorem load_import_keep_runs_witness:
  "truthy_opt (js_get orphan_doc ''version'')
   \<and> loadStore (Some (Some orphan_doc)) = Inr orphan_doc
   \<and> app_store (fst (importSnapshot (Some (Some orphan_doc))
                        \<lparr>app_store = defaultStore_doc, app_saved = None\<rparr>)) = orphan_doc
   \<and> orphan_runs orphan_doc \<noteq> []"
  using load_import_keep_runs [where data = orphan_doc
      and a = "\<lparr>app_store = defaultStore_doc, app_saved = None\<rparr>"]
  by (simp add: orphan_doc_def orphan_runs_def doc_list_def)

section \<open>Deleting a dog\<close>

lemma set_insert_by: "set (insert_by cmp x ys) = insert x (set ys)"
  by (induction ys) auto

lemma set_js_sort: "set (js_sort cmp xs) = set xs"
  by (induction xs) (simp_all add: js_sort_def set_insert_by)

lemma leaderboard_dogs: "row \<in> set (leaderboard st) \<Longrightarrow> fst row \<in> set (dogs st)"
  by (auto simp add: leaderboard_def set_js_sort split: option.splits)

lemma find_dog: "dogId \<in> dog_id ` set ds \<Longrightarrow> \<exists>d. find (\<lambda>d. dog_id d = dogId) ds = Some d"
  by (cases "find (\<lambda>d. dog_id d = dogId) ds") (auto simp add: find_None_iff)

lemma deleteDog_store:
  assumes "dogId \<in> dog_id ` set (dogs (app_store a))"
  shows "app_store (deleteDog dogId True a) =
     (app_store a)
       \<lparr>dogs := filter (\<lambda>d. dog_id d \<noteq> dogId) (dogs (app_store a)),
        runs := filter (\<lambda>r. run_dogId r \<noteq> dogId) (runs (app_store a)),
        settings := (settings (app_store a))
          \<lparr>activeDogId :=
             (if activeDogId (settings (app_store a)) = Some dogId then
                (case filter (\<lambda>d. dog_id d \<noteq> dogId) (dogs (app_store a)) of
                   [] \<Rightarrow> None
                 | d # _ \<Rightarrow> if dog_id d = [] then None else Some (dog_id d))
              else activeDogId (settings (app_store a)))\<rparr>\<rparr>"
proof -
  from find_dog [OF assms] obtain d
    where "find (\<lambda>d. dog_id d = dogId) (dogs (app_store a)) = Some d" ..
  then show ?thesis
    by (simp add: deleteDog_def saveStore_def Let_def)
qed

text \<open>
  C1, as stated, fails: with another dog left, deleting the active dog makes the first
  remaining dog active instead of clearing the reference.
\<close>

theorem deleteDog_active_counterexample:
  "dog_id dog_a = ''a'' \<and> dog_a \<in> set (dogs (app_store two_dogs))
   \<and> activeDogId (settings (app_store two_dogs)) = Some ''a''
   \<and> activeDogId (settings (app_store (deleteDog ''a'' True two_dogs))) = Some ''b''"
proof -
  have "''a'' \<in> dog_id ` set (dogs (app_store two_dogs))"
    by (simp add: two_dogs_def dog_a_def)
  from deleteDog_store [OF this] show ?thesis
    by (simp add: two_dogs_def dog_a_def dog_b_def)
qed

text \<open>
  C1, amended. For every store in which the deleted dog is the active dog, a confirmed
  \<open>deleteDog\<close> removes that dog and every run of that dog and keeps the other dogs and
  runs; the active-dog reference becomes the identifier of the first remaining dog,
  and none only when no dog remains or that identifier is empty; afterwards
  \<open>leaderboard\<close> has no entry for the deleted dog.
\<close>

theorem deleteDog_active:
  assumes "dogId \<in> dog_id ` set (dogs (app_store a))"
    and "activeDogId (settings (app_store a)) = Some dogId"
  shows "dogId \<notin> dog_id ` set (dogs (app_store (deleteDog dogId True a)))
    \<and> dogId \<notin> run_dogId ` set (runs (app_store (deleteDog dogId True a)))
    \<and> dogs (app_store (deleteDog dogId True a))
        = filter (\<lambda>d. dog_id d \<noteq> dogId) (dogs (app_store a))
    \<and> runs (app_store (deleteDog dogId True a))
        = filter (\<lambda>r. run_dogId r \<noteq> dogId) (runs (app_store a))
    \<and> activeDogId (settings (app_store (deleteDog dogId True a)))
        = (case dogs (app_store (deleteDog dogId True a)) of
             [] \<Rightarrow> None
           | d # _ \<Rightarrow> if dog_id d = [] then None else Some (dog_id d))
    \<and> dogId \<notin> (\<lambda>row. dog_id (fst row)) ` set (leaderboard (app_store (deleteDog dogId True a)))"
proof -
  let ?st = "app_store (deleteDog dogId True a)"
  note eq = deleteDog_store [OF assms(1)]
  have d: "dogs ?st = filter (\<lambda>d. dog_id d \<noteq> dogId) (dogs (app_store a))"
    and r: "runs ?st = filter (\<lambda>r. run_dogId r \<noteq> dogId) (runs (app_store a))"
    by (simp_all add: eq)
  have act: "activeDogId (settings ?st)
        = (case dogs ?st of [] \<Rightarrow> None | d # _ \<Rightarrow> if dog_id d = [] then None else Some (dog_id d))"
    unfolding d using assms(2) by (simp add: eq)
  have nd: "dogId \<notin> dog_id ` set (dogs ?st)"
    unfolding d by auto
  have nr: "dogId \<notin> run_dogId ` set (runs ?st)"
    unfolding r by auto
  have lb: "dogId \<notin> (\<lambda>row. dog_id (fst row)) ` set (leaderboard ?st)"
    using nd leaderboard_dogs [of _ ?st] by blast
  from nd nr d r act lb show ?thesis by blast
qed

theorem deleteDog_active_witness:
  "''a'' \<in> dog_id ` set (dogs (app_store two_dogs))
   \<and> activeDogId (settings (app_store two_dogs)) = Some ''a''
   \<and> dogs (app_store (deleteDog ''a'' True two_dogs)) = [dog_b]
   \<and> runs (app_store (deleteDog ''a'' True two_dogs))
       = [run_of ''r2'' ''b'' 20 ''2024-05-03T10:05:00.000Z'']
   \<and> activeDogId (settings (app_store (deleteDog ''a'' True two_dogs))) = Some ''b''
   \<and> ''a'' \<notin> (\<lambda>row. dog_id (fst row)) ` set (leaderboard (app_store (deleteDog ''a'' True two_dogs)))"
proof -
  have h1: "''a'' \<in> dog_id ` set (dogs (app_store two_dogs))"
    by (simp add: two_dogs_def dog_a_def)
  have h2: "activeDogId (settings (app_store two_dogs)) = Some ''a''"
    by (simp add: two_dogs_def)
  have f1: "filter (\<lambda>d. dog_id d \<noteq> ''a'') (dogs (app_store two_dogs)) = [dog_b]"
    by (simp add: two_dogs_def dog_a_def dog_b_def)
  have f2: "filter (\<lambda>r. run_dogId r \<noteq> ''a'') (runs (app_store two_dogs))
            = [run_of ''r2'' ''b'' 20 ''2024-05-03T10:05:00.000Z'']"
    by (simp add: two_dogs_def run_of_def)
  have b: "dog_id dog_b = ''b''"
    by (simp add: dog_b_def)
  show ?thesis
    using deleteDog_active [OF h1 h2] h1 h2 by (simp add: f1 f2 b)
qed

section \<open>Configuring the distances\<close>

lemma Set_from_acc:
  "distinct acc \<Longrightarrow>
     distinct (foldl (\<lambda>acc x. if x \<in> set acc then acc else acc @ [x]) acc xs)
     \<and> set (foldl (\<lambda>acc x. if x \<in> set acc then acc else acc @ [x]) acc xs) = set acc \<union> set xs"
  by (induction xs arbitrary: acc) auto

lemma distinct_Set_from: "distinct (Set_from xs)"
  using Set_from_acc [of "[]" xs] by (simp add: Set_from_def)

lemma set_Set_from: "set (Set_from xs) = set xs"
  using Set_from_acc [of "[]" xs] by (simp add: Set_from_def)

lemma Set_from_first_acc:
  "foldl (\<lambda>acc x. if x \<in> set acc then acc else acc @ [x]) acc xs
   = acc @ first_occurrences (filter (\<lambda>x. x \<notin> set acc) xs)"
proof (induction xs arbitrary: acc)
  case Nil
  show ?case by simp
next
  case (Cons x xs)
  show ?case
  proof (cases "x \<in> set acc")
    case True
    then show ?thesis by (simp add: Cons.IH)
  next
    case False
    have "filter (\<lambda>y. y \<notin> set (acc @ [x])) xs
          = filter (\<lambda>y. y \<noteq> x) (filter (\<lambda>y. y \<notin> set acc) xs)"
      by (induction xs) auto
    with False show ?thesis by (simp add: Cons.IH)
  qed
qed

lemma Set_from_first_occurrences: "Set_from xs = first_occurrences xs"
  using Set_from_first_acc [of "[]" xs] by (simp add: Set_from_def)

lemma length_Set_from: "length (Set_from xs) = card (set xs)"
  using distinct_card [OF distinct_Set_from, of xs] by (simp add: set_Set_from)

lemma parseInt_cases:
  "parseInt s = NaN \<or> (\<exists>k::nat. parseInt s = Num (of_nat k) \<or> parseInt s = Num (- of_nat k))"
  by (auto simp add: parseInt_def Let_def split: prod.splits)

lemma distance_entries_positive:
  assumes "n \<in> set (distance_entries input)"
  shows "\<exists>k::nat. 0 < k \<and> n = Num (of_nat k)"
proof -
  from assms obtain x where n: "n = parseInt (trim x)" and pos: "js_gt n (Num 0)"
    by (auto simp add: distance_entries_def)
  from parseInt_cases [of "trim x"] n pos show ?thesis
    by (auto simp add: js_gt_def)
qed

lemma setDistances_refused:
  "distance_entries input = [] \<Longrightarrow> setDistances input a = (a, Some Enter_at_least_one_distance)"
  by (simp add: setDistances_def Set_from_def)

lemma setDistances_accepted:
  assumes "distance_entries input \<noteq> []"
  shows "distances (app_store (fst (setDistances input a)))
           = take 12 (Set_from (distance_entries input))"
    and "defaultDistanceM (settings (app_store (fst (setDistances input a))))
           = (if defaultDistanceM (settings (app_store a))
                  \<in> set (take 12 (Set_from (distance_entries input)))
              then defaultDistanceM (settings (app_store a))
              else hd (take 12 (Set_from (distance_entries input))))"
    and "snd (setDistances input a) = None"
    and "take 12 (Set_from (distance_entries input)) \<noteq> []"
proof -
  have "set (Set_from (distance_entries input)) \<noteq> {}"
    using assms by (simp add: set_Set_from)
  then have "Set_from (distance_entries input) \<noteq> []"
    by auto
  then show ne: "take 12 (Set_from (distance_entries input)) \<noteq> []"
    by simp
  then obtain d0 ds where u: "take 12 (Set_from (distance_entries input)) = d0 # ds"
    by (cases "take 12 (Set_from (distance_entries input))") auto
  show "distances (app_store (fst (setDistances input a)))
           = take 12 (Set_from (distance_entries input))"
    by (simp add: setDistances_def Let_def u saveStore_def)
  show "defaultDistanceM (settings (app_store (fst (setDistances input a))))
           = (if defaultDistanceM (settings (app_store a))
                  \<in> set (take 12 (Set_from (distance_entries input)))
              then defaultDistanceM (settings (app_store a))
              else hd (take 12 (Set_from (distance_entries input))))"
    by (simp add: setDistances_def Let_def u saveStore_def)
  show "snd (setDistances input a) = None"
    by (simp add: setDistances_def Let_def u)
qed

text \<open>
  C2, amended. A submission without a positive integer entry is refused and changes
  nothing. Otherwise \<open>setDistances\<close> stores the positive integer entries in the order
  of their first occurrence, without duplicates, cut after the first 12 (so all of
  them when there are at most 12 different ones); and if the current default
  distance is not among the stored entries, the default distance becomes the first
  stored entry, which is the first positive integer entry of the submission.
\<close>

theorem setDistances_first:
  "(distance_entries input = [] \<longrightarrow>
      setDistances input a = (a, Some Enter_at_least_one_distance))
   \<and> (distance_entries input \<noteq> [] \<longrightarrow>
        distances (app_store (fst (setDistances input a))) \<noteq> []
      \<and> distances (app_store (fst (setDistances input a)))
          = take 12 (first_occurrences (distance_entries input))
      \<and> hd (distances (app_store (fst (setDistances input a)))) = hd (distance_entries input)
      \<and> distinct (distances (app_store (fst (setDistances input a))))
      \<and> length (distances (app_store (fst (setDistances input a)))) \<le> 12
      \<and> set (distances (app_store (fst (setDistances input a)))) \<subseteq> set (distance_entries input)
      \<and> (card (set (distance_entries input)) \<le> 12 \<longrightarrow>
           set (distances (app_store (fst (setDistances input a)))) = set (distance_entries input))
      \<and> (\<forall>n \<in> set (distances (app_store (fst (setDistances input a)))).
            \<exists>k::nat. 0 < k \<and> n = Num (of_nat k))
      \<and> defaultDistanceM (settings (app_store (fst (setDistances input a))))
          = (if defaultDistanceM (settings (app_store a))
                 \<in> set (distances (app_store (fst (setDistances input a))))
             then defaultDistanceM (settings (app_store a))
             else hd (distances (app_store (fst (setDistances input a))))))"
proof (intro conjI impI)
  assume "distance_entries input = []"
  then show "setDistances input a = (a, Some Enter_at_least_one_distance)"
    by (rule setDistances_refused)
next
  let ?ds = "distances (app_store (fst (setDistances input a)))"
  let ?u = "take 12 (Set_from (distance_entries input))"
  assume ne: "distance_entries input \<noteq> []"
  note acc = setDistances_accepted [OF ne]
  have ds: "?ds = ?u" by (rule acc(1))
  show "?ds \<noteq> []" unfolding ds by (rule acc(4))
  show "?ds = take 12 (first_occurrences (distance_entries input))"
    unfolding ds by (simp add: Set_from_first_occurrences)
  show "hd ?ds = hd (distance_entries input)"
    unfolding ds using ne
    by (cases "distance_entries input") (simp_all add: Set_from_first_occurrences)
  show "distinct ?ds" unfolding ds by (simp add: distinct_Set_from)
  show "length ?ds \<le> 12" unfolding ds by simp
  show sub: "set ?ds \<subseteq> set (distance_entries input)"
    unfolding ds using set_take_subset [of 12 "Set_from (distance_entries input)"]
    by (simp add: set_Set_from)
  show "\<forall>n \<in> set ?ds. \<exists>k::nat. 0 < k \<and> n = Num (of_nat k)"
    using sub distance_entries_positive by blast
  show "defaultDistanceM (settings (app_store (fst (setDistances input a))))
          = (if defaultDistanceM (settings (app_store a)) \<in> set ?ds
             then defaultDistanceM (settings (app_store a)) else hd ?ds)"
    unfolding ds by (rule acc(2))
  assume "card (set (distance_entries input)) \<le> 12"
  then show "set ?ds = set (distance_entries input)"
    unfolding ds by (simp add: length_Set_from set_Set_from)
qed

lemma entries_200_50: "distance_entries ''200, 50'' = [Num 200, Num 50]"
  by code_simp

lemma entries_junk: "distance_entries ''abc, -3, 0'' = []"
  by code_simp

text \<open>
  C2, as stated, fails: the fallback default is the first stored distance, not the
  smallest. With the default \<open>100\<close> and the submission \<open>200, 50\<close> it becomes \<open>200\<close>.
\<close>

theorem setDistances_smallest_counterexample:
  "defaultDistanceM (settings defaultStore) = Num 100
   \<and> distances (app_store (fst (setDistances ''200, 50''
                                   \<lparr>app_store = defaultStore, app_saved = None\<rparr>)))
       = [Num 200, Num 50]
   \<and> defaultDistanceM (settings (app_store (fst (setDistances ''200, 50''
                                   \<lparr>app_store = defaultStore, app_saved = None\<rparr>))))
       = Num 200
   \<and> js_lt (Num 50) (Num 200)"
  by (simp add: setDistances_def entries_200_50 Set_from_def defaultStore_def saveStore_def Let_def)

theorem setDistances_first_witness:
  "distance_entries ''abc, -3, 0'' = []
   \<and> setDistances ''abc, -3, 0'' \<lparr>app_store = defaultStore, app_saved = None\<rparr>
       = (\<lparr>app_store = defaultStore, app_saved = None\<rparr>, Some Enter_at_least_one_distance)
   \<and> distance_entries ''200, 50'' \<noteq> []
   \<and> card (set (distance_entries ''200, 50'')) \<le> 12
   \<and> distances (app_store (fst (setDistances ''200, 50''
                                  \<lparr>app_store = defaultStore, app_saved = None\<rparr>)))
       = [Num 200, Num 50]
   \<and> set (distances (app_store (fst (setDistances ''200, 50''
                                       \<lparr>app_store = defaultStore, app_saved = None\<rparr>))))
       = {Num 200, Num 50}"
  using setDistances_first [where input = "''abc, -3, 0''"
      and a = "\<lparr>app_store = defaultStore, app_saved = None\<rparr>"]
    setDistances_first [where input = "''200, 50''"
      and a = "\<lparr>app_store = defaultStore, app_saved = None\<rparr>"]
  by (simp add: entries_200_50 entries_junk)

section \<open>Saving a run\<close>

lemma saveRun_accepted:
  assumes "dogs (app_store a) \<noteq> []" "\<not> running t" "\<not> js_le (elapsed t) (Num 0)"
  shows "fst (saveRun form uid now (a, t)) =
     (saveStore (a\<lparr>app_store := (app_store a)\<lparr>runs := runs (app_store a) @
        [\<lparr>run_id = uid, run_dogId = recordDog form,
          run_distanceM = parseInt (recordDistance form),
          run_timeMs = Math_round (elapsed t),
          run_speedKmh = round_to (speedKmh (parseInt (recordDistance form)) (elapsed t)) 4,
          run_sport = recordSport form, run_notes = trim (recordNotes form),
          run_createdAt = now\<rparr>]\<rparr>\<rparr>),
      resetTimer t)"
  using assms by (simp add: saveRun_def Let_def)

lemma Math_round_nearest:
  "\<exists>k::int. Math_round (Num e) = Num (of_int k) \<and> \<bar>of_int k - e\<bar> \<le> 1 / 2"
proof -
  have "of_int \<lfloor>e + 1 / 2\<rfloor> \<le> e + 1 / 2" "e + 1 / 2 < of_int \<lfloor>e + 1 / 2\<rfloor> + 1"
    by linarith+
  then have "\<bar>of_int \<lfloor>e + 1 / 2\<rfloor> - e\<bar> \<le> 1 / 2"
    by linarith
  then show ?thesis by auto
qed

lemma parseInt_100: "parseInt ''100'' = Num 100"
  by code_simp

lemma round_10000_4: "Math_round (Num (50002 / 5)) = Num 10000"
  by (simp add: floor_eq_iff)

lemma speed_unrounded: "round_to (speedKmh (Num 100) (Num (50002 / 5))) 4 = Num (179993 / 5000)"
proof -
  have "\<lfloor>18000025001 / 50002 :: rat\<rfloor> = 359986"
    by (simp add: floor_eq_iff)
  then show ?thesis
    by (simp add: round_to_def speedKmh_def)
qed

lemma speed_rounded: "speedKmh (Num 100) (Math_round (Num (50002 / 5))) = Num 36"
  by (simp only: round_10000_4) (simp add: speedKmh_def)

text \<open>
  C9. Every run that the save handler accepts is appended to the runs with \<open>timeMs\<close> the
  timer's elapsed duration rounded to the nearest millisecond and \<open>speedKmh\<close> computed
  from the unrounded elapsed duration and then rounded to 4 decimal places. So the
  stored speed need not be the speed recomputed from the stored fields: for \<open>100\<close>
  metres in \<open>10000.4\<close> ms the stored values are \<open>10000\<close> ms and \<open>35.9986\<close> km/h, while
  \<open>speedKmh 100 10000\<close> is \<open>36\<close>.
\<close>

theorem saveRun_rounding:
  "(dogs (app_store a) \<noteq> [] \<longrightarrow> \<not> running t \<longrightarrow> \<not> js_le (elapsed t) (Num 0) \<longrightarrow>
      (\<exists>r. runs (app_store (fst (fst (saveRun form uid now (a, t))))) = runs (app_store a) @ [r]
           \<and> run_distanceM r = parseInt (recordDistance form)
           \<and> run_timeMs r = Math_round (elapsed t)
           \<and> run_speedKmh r = round_to (speedKmh (run_distanceM r) (elapsed t)) 4
           \<and> (\<forall>e. elapsed t = Num e \<longrightarrow>
                 (\<exists>k::int. run_timeMs r = Num (of_int k) \<and> \<bar>of_int k - e\<bar> \<le> 1 / 2))))
   \<and> (\<exists>r. runs (app_store (fst (fst (saveRun form_100 ''r9'' ''2024-05-04T09:00:00.000Z''
                                        (two_dogs, stopped_at (50002 / 5))))))
             = runs (app_store two_dogs) @ [r]
           \<and> run_speedKmh r \<noteq> speedKmh (run_distanceM r) (run_timeMs r)
           \<and> run_speedKmh r \<noteq> round_to (speedKmh (run_distanceM r) (run_timeMs r)) 4)"
proof (intro conjI impI)
  assume h: "dogs (app_store a) \<noteq> []" "\<not> running t" "\<not> js_le (elapsed t) (Num 0)"
  show "\<exists>r. runs (app_store (fst (fst (saveRun form uid now (a, t))))) = runs (app_store a) @ [r]
           \<and> run_distanceM r = parseInt (recordDistance form)
           \<and> run_timeMs r = Math_round (elapsed t)
           \<and> run_speedKmh r = round_to (speedKmh (run_distanceM r) (elapsed t)) 4
           \<and> (\<forall>e. elapsed t = Num e \<longrightarrow>
                 (\<exists>k::int. run_timeMs r = Num (of_int k) \<and> \<bar>of_int k - e\<bar> \<le> 1 / 2))"
    using Math_round_nearest
    by (simp add: saveRun_accepted [OF h] saveStore_def)
next
  have h: "dogs (app_store two_dogs) \<noteq> []" "\<not> running (stopped_at (50002 / 5))"
    "\<not> js_le (elapsed (stopped_at (50002 / 5))) (Num 0)"
    by (simp_all add: two_dogs_def stopped_at_def)
  have e: "elapsed (stopped_at (50002 / 5)) = Num (50002 / 5)"
    by (simp add: stopped_at_def)
  have d: "parseInt (recordDistance form_100) = Num 100"
    by (simp add: form_100_def parseInt_100)
  have r4: "round_to (Num 36) 4 = Num 36"
    by (simp add: round_to_def floor_eq_iff)
  show "\<exists>r. runs (app_store (fst (fst (saveRun form_100 ''r9'' ''2024-05-04T09:00:00.000Z''
                                        (two_dogs, stopped_at (50002 / 5))))))
             = runs (app_store two_dogs) @ [r]
           \<and> run_speedKmh r \<noteq> speedKmh (run_distanceM r) (run_timeMs r)
           \<and> run_speedKmh r \<noteq> round_to (speedKmh (run_distanceM r) (run_timeMs r)) 4"
    by (simp add: saveRun_accepted [OF h] saveStore_def e d speed_unrounded speed_rounded r4
        del: Math_round.simps)
qed

theorem saveRun_rounding_witness:
  "dogs (app_store two_dogs) \<noteq> [] \<and> \<not> running (stopped_at (50002 / 5))
   \<and> \<not> js_le (elapsed (stopped_at (50002 / 5))) (Num 0)
   \<and> (\<exists>r. runs (app_store (fst (fst (saveRun form_100 ''r9'' ''2024-05-04T09:00:00.000Z''
                                        (two_dogs, stopped_at (50002 / 5))))))
             = runs (app_store two_dogs) @ [r]
           \<and> run_distanceM r = Num 100
           \<and> run_timeMs r = Num 10000
           \<and> run_speedKmh r = Num (179993 / 5000)
           \<and> speedKmh (run_distanceM r) (run_timeMs r) = Num 36)"
proof -
  have h: "dogs (app_store two_dogs) \<noteq> []" "\<not> running (stopped_at (50002 / 5))"
    "\<not> js_le (elapsed (stopped_at (50002 / 5))) (Num 0)"
    by (simp_all add: two_dogs_def stopped_at_def)
  have e: "elapsed (stopped_at (50002 / 5)) = Num (50002 / 5)"
    by (simp add: stopped_at_def)
  have d: "parseInt (recordDistance form_100) = Num 100"
    by (simp add: form_100_def parseInt_100)
  note m = round_10000_4
  have s: "speedKmh (Num 100) (Num 10000) = Num 36"
    by (simp add: speedKmh_def)
  from saveRun_rounding [where a = two_dogs and t = "stopped_at (50002 / 5)"
      and form = form_100 and uid = "''r9''" and now = "''2024-05-04T09:00:00.000Z''"] h
  obtain r where
    "runs (app_store (fst (fst (saveRun form_100 ''r9'' ''2024-05-04T09:00:00.000Z''
                                  (two_dogs, stopped_at (50002 / 5))))))
       = runs (app_store two_dogs) @ [r]"
    "run_distanceM r = parseInt (recordDistance form_100)"
    "run_timeMs r = Math_round (elapsed (stopped_at (50002 / 5)))"
    "run_speedKmh r = round_to (speedKmh (run_distanceM r) (elapsed (stopped_at (50002 / 5)))) 4"
    by blast
  then have "\<exists>r. runs (app_store (fst (fst (saveRun form_100 ''r9'' ''2024-05-04T09:00:00.000Z''
                                        (two_dogs, stopped_at (50002 / 5))))))
             = runs (app_store two_dogs) @ [r]
           \<and> run_distanceM r = Num 100
           \<and> run_timeMs r = Num 10000
           \<and> run_speedKmh r = Num (179993 / 5000)"
    by (intro exI [of _ r]) (simp add: e d m speed_unrounded del: Math_round.simps)
  with h s show ?thesis by auto
qed

section \<open>The best run of a dog\<close>

















end
